theory Spec2Isabelle
  imports Complex_Main "HOL-Library.Multiset" "HOL-Library.AList" "HOL-Library.Sublist"
begin

section \<open>Data model\<close>

text \<open>
  Python values that travel through the handlers: table cells, the values of a response
  dictionary, and what \<^verbatim>\<open>json.loads\<close> returns. A float is idealised as a real number;
  the float \<^verbatim>\<open>nan\<close> that pandas uses for a missing cell is kept apart as \<open>PNaN\<close>.
  A dictionary is an association list in insertion order.
\<close>

datatype pyval =
    PNone
  | PNaN
  | PBool bool
  | PInt int
  | PFloat real
  | PStr string
  | PList "pyval list"
  | PDict "(string \<times> pyval) list"

type_synonym pydict = "(string \<times> pyval) list"

text \<open>Python's truth value of an object, as tested by \<^verbatim>\<open>if x:\<close>. The float nan is true.\<close>

fun truthy :: "pyval \<Rightarrow> bool" where
  "truthy PNone = False"
| "truthy PNaN = True"
| "truthy (PBool b) = b"
| "truthy (PInt i) = (i \<noteq> 0)"
| "truthy (PFloat r) = (r \<noteq> 0)"
| "truthy (PStr s) = (s \<noteq> [])"
| "truthy (PList xs) = (xs \<noteq> [])"
| "truthy (PDict d) = (d \<noteq> [])"

text \<open>
  One row of the predictions table, with the columns the sources read. The columns
  \<^verbatim>\<open>underperformer\<close>, \<^verbatim>\<open>weekend_ratio\<close> and \<^verbatim>\<open>shap_json\<close> may be missing from the file;
  the table says which of them it has, and a row's field of a missing column is not read.
\<close>

record building =
  building_id :: string
  building_type :: string
  cluster :: int
  is_anomaly :: bool
  underperformer :: bool
  priority_rank :: int
  baseload :: real
  weekend_ratio :: real
  night_ratio :: real
  avg_consumption :: real
  recommendation :: string
  shap_json :: pyval

record table =
  rows :: "building list"
  has_underperformer :: bool
  has_weekend_ratio :: bool
  has_shap_json :: bool

text \<open>
  What a handler can raise. \<open>HTTPException\<close> is the status and detail that FastAPI turns
  into an error response.
\<close>

datatype error = HTTPException nat string

section \<open>pandas operations used by the handlers\<close>

text \<open>\<^verbatim>\<open>Series.sum()\<close> of a boolean column: True counts 1, False counts 0.\<close>

definition series_sum :: "bool list \<Rightarrow> int" where
  "series_sum bs = (\<Sum>b\<leftarrow>bs. if b then 1 else 0)"

text \<open>
  \<^verbatim>\<open>Series.value_counts().to_dict()\<close>: each value that occurs, with the number of its
  occurrences. The order of the keys is not modelled.
\<close>

definition value_counts :: "int list \<Rightarrow> (int \<rightharpoonup> nat)" where
  "value_counts xs = (\<lambda>c. if c \<in> set xs then Some (count_list xs c) else None)"

text \<open>
  \<^verbatim>\<open>DataFrame.nsmallest(n, col)\<close> with the default \<^verbatim>\<open>keep='first'\<close>: the first \<open>n\<close> rows
  in ascending order of the column, rows of equal value in table order.
\<close>

definition nsmallest :: "nat \<Rightarrow> ('a \<Rightarrow> int) \<Rightarrow> 'a list \<Rightarrow> 'a list" where
  "nsmallest n col rs = take n (sort_key col rs)"

section \<open>api.py\<close>

text \<open>An entry of \<^verbatim>\<open>top_priority\<close>: the four selected columns of a row.\<close>

record priority_entry =
  tp_building_id :: string
  tp_building_type :: string
  tp_recommendation :: string
  tp_priority_rank :: int

definition select_priority_columns :: "building \<Rightarrow> priority_entry" where
  "select_priority_columns b =
     \<lparr> tp_building_id = building_id b,
       tp_building_type = building_type b,
       tp_recommendation = recommendation b,
       tp_priority_rank = priority_rank b \<rparr>"

record summary =
  total_buildings :: nat
  anomalies :: int
  underperformers :: int
  clusters :: "int \<rightharpoonup> nat"
  top_priority :: "priority_entry list"

definition get_summary :: "table \<Rightarrow> summary" where
  "get_summary df =
     \<lparr> total_buildings = length (rows df),
       anomalies = series_sum (map is_anomaly (rows df)),
       underperformers =
         (if has_underperformer df then series_sum (map underperformer (rows df)) else 0),
       clusters = value_counts (map cluster (rows df)),
       top_priority =
         map select_priority_columns (nsmallest 10 priority_rank (rows df)) \<rparr>"

text \<open>\<^verbatim>\<open>list_buildings\<close>: three columns of every row, in table order.\<close>

definition list_buildings :: "table \<Rightarrow> (string \<times> string \<times> int) list" where
  "list_buildings df = map (\<lambda>b. (building_id b, building_type b, priority_rank b)) (rows df)"

text \<open>
  \<^verbatim>\<open>row.iloc[0].to_dict()\<close>: the row as a dictionary from column name to cell, with a key
  for each column the table has.
\<close>

definition to_dict :: "table \<Rightarrow> building \<Rightarrow> pydict" where
  "to_dict df b =
     [(''building_id'', PStr (building_id b)),
      (''building_type'', PStr (building_type b)),
      (''cluster'', PInt (cluster b)),
      (''is_anomaly'', PBool (is_anomaly b))]
     @ (if has_underperformer df then [(''underperformer'', PBool (underperformer b))] else [])
     @ [(''priority_rank'', PInt (priority_rank b)),
        (''baseload'', PFloat (baseload b))]
     @ (if has_weekend_ratio df then [(''weekend_ratio'', PFloat (weekend_ratio b))] else [])
     @ [(''night_ratio'', PFloat (night_ratio b)),
        (''avg_consumption'', PFloat (avg_consumption b)),
        (''recommendation'', PStr (recommendation b))]
     @ (if has_shap_json df then [(''shap_json'', shap_json b)] else [])"

text \<open>
  \<^verbatim>\<open>json.loads\<close> is library code. Its decoder of a text is a parameter \<open>loads\<close> of the
  handlers: \<open>None\<close> when the decoder raises. An argument that is not text raises a
  TypeError. Both are caught by the handlers' bare \<^verbatim>\<open>except:\<close>.
\<close>

type_synonym decoder = "string \<Rightarrow> pyval option"

fun json_loads :: "decoder \<Rightarrow> pyval \<Rightarrow> pyval option" where
  "json_loads loads (PStr s) = loads s"
| "json_loads loads _ = None"

text \<open>
  \<^verbatim>\<open>get_building\<close>: the first row whose identifier is the queried one; 404 when there is
  none. \<^verbatim>\<open>shap_values\<close> is assigned only under the test
  \<^verbatim>\<open>'shap_json' in record and record['shap_json']\<close>.
\<close>

definition get_building :: "decoder \<Rightarrow> table \<Rightarrow> string \<Rightarrow> error + pydict" where
  "get_building loads df bid =
     (case filter (\<lambda>b. building_id b = bid) (rows df) of
        [] \<Rightarrow> Inl (HTTPException 404 ''Building not found'')
      | b # _ \<Rightarrow>
          (let record = to_dict df b in
           Inr (case map_of record ''shap_json'' of
                  None \<Rightarrow> record
                | Some sj \<Rightarrow>
                    if truthy sj then
                      (case json_loads loads sj of
                         Some v \<Rightarrow> AList.update ''shap_values'' v record
                       | None \<Rightarrow> AList.update ''shap_values'' (PDict []) record)
                    else record)))"

text \<open>
  The mean of a column of the selected rows. The handlers call it after the test for an
  empty selection, so on a non-empty list only.
\<close>

definition mean :: "real list \<Rightarrow> real" where
  "mean xs = sum_list xs / real (length xs)"

record cluster_info =
  cluster_id :: int
  cluster_count :: nat
  avg_baseload :: real
  avg_weekend_ratio :: "real option"

record cluster_response = cluster_info +
  buildings :: "string list"

definition get_cluster :: "table \<Rightarrow> int \<Rightarrow> error + cluster_response" where
  "get_cluster df cid =
     (let cluster_df = filter (\<lambda>b. cluster b = cid) (rows df) in
      if cluster_df = [] then Inl (HTTPException 404 ''Cluster not found'')
      else Inr \<lparr> cluster_id = cid,
                 cluster_count = length cluster_df,
                 avg_baseload = mean (map baseload cluster_df),
                 avg_weekend_ratio =
                   (if has_weekend_ratio df then Some (mean (map weekend_ratio cluster_df))
                    else None),
                 buildings = map building_id cluster_df \<rparr>)"

text \<open>
  The table is the module's global \<^verbatim>\<open>df\<close>, assigned once when the module is loaded. A
  request is a step on it: the handler's result and the table afterwards. No handler
  assigns to \<^verbatim>\<open>df\<close> or writes into it.
\<close>

definition request_get_building ::
    "decoder \<Rightarrow> string \<Rightarrow> table \<Rightarrow> (error + pydict) \<times> table" where
  "request_get_building loads bid df = (get_building loads df bid, df)"

definition request_get_cluster :: "int \<Rightarrow> table \<Rightarrow> (error + cluster_response) \<times> table" where
  "request_get_cluster cid df = (get_cluster df cid, df)"

section \<open>dashboard_cloud.py\<close>

definition cloud_get_summary :: "table \<Rightarrow> summary" where
  "cloud_get_summary df =
     \<lparr> total_buildings = length (rows df),
       anomalies = series_sum (map is_anomaly (rows df)),
       underperformers =
         (if has_underperformer df then series_sum (map underperformer (rows df)) else 0),
       clusters = value_counts (map cluster (rows df)),
       top_priority =
         map select_priority_columns (nsmallest 10 priority_rank (rows df)) \<rparr>"

text \<open>\<^verbatim>\<open>pd.notna\<close> of a cell: false for None and for nan.\<close>

fun notna :: "pyval \<Rightarrow> bool" where
  "notna PNone = False"
| "notna PNaN = False"
| "notna _ = True"

text \<open>
  The dashboard's own \<^verbatim>\<open>get_building\<close> returns None for an unknown identifier and always
  assigns \<^verbatim>\<open>shap_values\<close>.
\<close>

definition cloud_get_building :: "decoder \<Rightarrow> table \<Rightarrow> string \<Rightarrow> pydict option" where
  "cloud_get_building loads df bid =
     (case filter (\<lambda>b. building_id b = bid) (rows df) of
        [] \<Rightarrow> None
      | b # _ \<Rightarrow>
          (let record = to_dict df b in
           Some (case map_of record ''shap_json'' of
                   None \<Rightarrow> AList.update ''shap_values'' (PDict []) record
                 | Some sj \<Rightarrow>
                     if truthy sj \<and> notna sj then
                       (case json_loads loads sj of
                          Some v \<Rightarrow> AList.update ''shap_values'' v record
                        | None \<Rightarrow> AList.update ''shap_values'' (PDict []) record)
                     else AList.update ''shap_values'' (PDict []) record)))"

definition cloud_get_cluster :: "table \<Rightarrow> int \<Rightarrow> cluster_info option" where
  "cloud_get_cluster df cid =
     (let cluster_df = filter (\<lambda>b. cluster b = cid) (rows df) in
      if cluster_df = [] then None
      else Some \<lparr> cluster_id = cid,
                  cluster_count = length cluster_df,
                  avg_baseload = mean (map baseload cluster_df),
                  avg_weekend_ratio =
                    (if has_weekend_ratio df then Some (mean (map weekend_ratio cluster_df))
                     else None) \<rparr>)"

section \<open>dashboard.py and dashboard_cloud.py: cluster descriptions and the SHAP chart\<close>

text \<open>
  Python's \<^verbatim>\<open>sorted(xs, key=f, reverse=True)\<close>: descending in the key, and stable, so
  items of equal key keep their order.
\<close>

definition sorted_reverse :: "('a \<Rightarrow> real) \<Rightarrow> 'a list \<Rightarrow> 'a list" where
  "sorted_reverse f xs = sort_key (\<lambda>x. - f x) xs"

text \<open>
  \<^verbatim>\<open>get_cluster_description\<close> returns one of the three entries of its \<^verbatim>\<open>descriptions\<close>
  dictionary; the model returns the entry's key. \<^verbatim>\<open>cluster_stats\<close> is a dictionary from
  cluster id to that cluster's statistics, of which only \<^verbatim>\<open>avg_baseload\<close> is read. Its keys
  are the cluster ids as integers: the source applies \<^verbatim>\<open>int\<close> to each key (the keys are
  integers in dashboard_cloud.py and their decimal texts in dashboard.py).
\<close>

datatype description = high_baseload | efficient | standard

text \<open>
  The \<^verbatim>\<open>for i, (cid, stats) in enumerate(...)\<close> loop, from index \<open>i\<close> on; \<open>n\<close> is the
  length of the whole sorted list, \<open>cluster_id'\<close> the function's argument \<^verbatim>\<open>cluster_id\<close>.
\<close>

fun description_loop ::
    "nat \<Rightarrow> nat \<Rightarrow> int \<Rightarrow> (int \<times> 'a cluster_info_scheme) list \<Rightarrow> description" where
  "description_loop n i cluster_id' [] = standard"
| "description_loop n i cluster_id' ((cid, stats) # rest) =
     (if cid = cluster_id' then
        (if i = 0 then high_baseload
         else if int i = int n - 1 then efficient
         else standard)
      else description_loop n (Suc i) cluster_id' rest)"

definition get_cluster_description ::
    "int \<Rightarrow> (int \<times> 'a cluster_info_scheme) list \<Rightarrow> description" where
  "get_cluster_description cluster_id' cluster_stats =
     (let clusters_by_baseload = sorted_reverse (\<lambda>x. avg_baseload (snd x)) cluster_stats
      in description_loop (length clusters_by_baseload) 0 cluster_id' clusters_by_baseload)"




section \<open>A decoder for flat JSON objects\<close>

text \<open>
  An instance of the decoder parameter, for running the handlers on concrete payloads. It
  reads a JSON object whose keys are strings without escapes and whose values are decimal
  numbers (an optional sign, digits, an optional fraction), with JSON's white space, and
  rejects every other text. A key read twice keeps its first place and its last value, as
  in a Python dictionary.
\<close>

definition is_ws :: "char \<Rightarrow> bool" where
  "is_ws c = (c \<in> set [CHR '' '', CHR 0x09, CHR 0x0A, CHR 0x0D])"

definition is_digit :: "char \<Rightarrow> bool" where
  "is_digit c = (c \<in> set ''0123456789'')"

definition skip_ws :: "string \<Rightarrow> string" where
  "skip_ws s = dropWhile is_ws s"

definition digits_value :: "string \<Rightarrow> nat" where
  "digits_value ds = foldl (\<lambda>a c. 10 * a + (of_char c - 48)) 0 ds"

definition read_number :: "string \<Rightarrow> (pyval \<times> string) option" where
  "read_number s =
     (let (sign, s1) = (case s of c # t \<Rightarrow> if c = CHR ''-'' then (-1, t) else (1, s) | [] \<Rightarrow> (1::int, s));
          ip = takeWhile is_digit s1;
          s2 = dropWhile is_digit s1
      in if ip = [] \<or> (1 < length ip \<and> hd ip = CHR ''0'') then None
         else (case s2 of
                 c # t \<Rightarrow>
                   if c = CHR ''.'' then
                     (let fp = takeWhile is_digit t; s3 = dropWhile is_digit t
                      in if fp = [] then None
                         else Some (PFloat (real_of_int sign *
                                      (real (digits_value ip)
                                       + real (digits_value fp) / 10 ^ length fp)), s3))
                   else Some (PInt (sign * int (digits_value ip)), s2)
               | [] \<Rightarrow> Some (PInt (sign * int (digits_value ip)), s2)))"

text \<open>The members of the object after its opening brace; \<open>fuel\<close> bounds their number.\<close>

fun read_members :: "nat \<Rightarrow> string \<Rightarrow> pydict \<Rightarrow> pydict option" where
  "read_members 0 s acc = None"
| "read_members (Suc fuel) s acc =
     (case skip_ws s of
        [] \<Rightarrow> None
      | q # t \<Rightarrow>
          if q \<noteq> CHR 0x22 then None
          else
            (let k = takeWhile (\<lambda>c. c \<noteq> CHR 0x22) t;
                 r = dropWhile (\<lambda>c. c \<noteq> CHR 0x22) t
             in if r = [] \<or> CHR 0x5C \<in> set k then None
                else (case skip_ws (tl r) of
                        [] \<Rightarrow> None
                      | colon # u \<Rightarrow>
                          if colon \<noteq> CHR '':'' then None
                          else (case read_number (skip_ws u) of
                                  None \<Rightarrow> None
                                | Some (v, w) \<Rightarrow>
                                    (case skip_ws w of
                                       [] \<Rightarrow> None
                                     | d # x \<Rightarrow>
                                         if d = CHR '','' then
                                           read_members fuel x (AList.update k v acc)
                                         else if d = CHR ''}'' \<and> skip_ws x = [] then
                                           Some (AList.update k v acc)
                                         else None)))))"

definition loads_flat :: decoder where
  "loads_flat s =
     (case skip_ws s of
        [] \<Rightarrow> None
      | b # t \<Rightarrow>
          if b \<noteq> CHR ''{'' then None
          else (case skip_ws t of
                  [] \<Rightarrow> None
                | c # x \<Rightarrow>
                    if c = CHR ''}'' then (if skip_ws x = [] then Some (PDict []) else None)
                    else map_option PDict (read_members (length t) t [])))"

section \<open>Example tables\<close>

definition example_building ::
    "string \<Rightarrow> int \<Rightarrow> bool \<Rightarrow> int \<Rightarrow> real \<Rightarrow> pyval \<Rightarrow> building" where
  "example_building bid c anomaly rank base sj =
     \<lparr> building_id = bid, building_type = ''Office'', cluster = c, is_anomaly = anomaly,
       underperformer = False, priority_rank = rank, baseload = base, weekend_ratio = 1 / 2,
       night_ratio = 1 / 4, avg_consumption = 100, recommendation = ''Audit'',
       shap_json = sj \<rparr>"

definition example_shap_text :: string where
  "example_shap_text =
     [CHR ''{'', CHR 0x22, CHR ''a'', CHR 0x22, CHR '':'', CHR '' '', CHR ''0'', CHR ''.'',
      CHR ''5'', CHR '','', CHR '' '', CHR 0x22, CHR ''b'', CHR 0x22, CHR '':'', CHR '' '',
      CHR ''-'', CHR ''0'', CHR ''.'', CHR ''3'', CHR ''}'']"

definition row_B3 :: building where
  "row_B3 = example_building ''B3'' 0 True 3 30 (PStr example_shap_text)"

definition row_B1 :: building where
  "row_B1 = example_building ''B1'' 1 False 1 10 (PStr ''{not json'')"

definition row_B2 :: building where
  "row_B2 = example_building ''B2'' 0 True 2 20 PNone"

definition row_B4 :: building where
  "row_B4 = example_building ''B4'' 2 False 4 5 (PStr [])"

definition example_rows :: "building list" where
  "example_rows = [row_B3, row_B1, row_B2, row_B4]"

definition example_table :: table where
  "example_table =
     \<lparr> rows = example_rows, has_underperformer = True, has_weekend_ratio = True,
       has_shap_json = True \<rparr>"

text \<open>Statistics of three clusters, in an order that is not the order of their baseloads.\<close>

definition example_stats :: "(int \<times> cluster_info) list" where
  "example_stats =
     [(1, \<lparr> cluster_id = 1, cluster_count = 1, avg_baseload = 10, avg_weekend_ratio = None \<rparr>),
      (0, \<lparr> cluster_id = 0, cluster_count = 2, avg_baseload = 25, avg_weekend_ratio = None \<rparr>),
      (2, \<lparr> cluster_id = 2, cluster_count = 1, avg_baseload = 5, avg_weekend_ratio = None \<rparr>)]"

section \<open>Properties\<close>

lemmas example_defs =
  example_table_def example_rows_def row_B3_def row_B1_def row_B2_def row_B4_def
  example_building_def

lemma series_sum_filter: "series_sum (map p rs) = int (length (filter p rs))"
  by (induction rs) (simp_all add: series_sum_def)

subsection \<open>The summary\<close>

text \<open>
  C4. The \<open>anomalies\<close> field of \<open>get_summary\<close> is the number of rows whose \<open>is_anomaly\<close>
  is true. A table with the same rows in another order has the same count, and on a table
  made of a sub-list of the rows the field is the number of true flags of that sub-list.
\<close>

theorem anomalies_count:
  "anomalies (get_summary df) = int (length (filter is_anomaly (rows df)))
   \<and> (mset (rows df') = mset (rows df) \<longrightarrow>
        anomalies (get_summary df') = anomalies (get_summary df))
   \<and> (subseq rs (rows df) \<longrightarrow>
        anomalies (get_summary (df\<lparr>rows := rs\<rparr>)) = int (length (filter is_anomaly rs)))"
proof -
  have count: "anomalies (get_summary t) = int (length (filter is_anomaly (rows t)))" for t
    by (simp add: get_summary_def series_sum_filter)
  have "length (filter is_anomaly (rows df')) = length (filter is_anomaly (rows df))"
    if "mset (rows df') = mset (rows df)"
  proof -
    have "mset (filter is_anomaly (rows df')) = mset (filter is_anomaly (rows df))"
      using that by (metis mset_filter)
    then show ?thesis by (rule mset_eq_length)
  qed
  then show ?thesis by (simp add: count)
qed

theorem anomalies_count_witness:
  "mset (rows (example_table\<lparr>rows := rev example_rows\<rparr>)) = mset (rows example_table)
   \<and> subseq (take 2 example_rows) (rows example_table)
   \<and> anomalies (get_summary example_table) = 2
   \<and> anomalies (get_summary (example_table\<lparr>rows := rev example_rows\<rparr>)) = 2
   \<and> anomalies (get_summary (example_table\<lparr>rows := take 2 example_rows\<rparr>)) = 1"
proof -
  have p: "mset (rows (example_table\<lparr>rows := rev example_rows\<rparr>)) = mset (rows example_table)"
    by (simp add: example_table_def)
  have s: "subseq (take 2 example_rows) (rows example_table)"
    by (simp add: example_table_def example_rows_def)
  from anomalies_count [of example_table "example_table\<lparr>rows := rev example_rows\<rparr>"
      "take 2 example_rows"] p s
  show ?thesis
    by (simp add: example_defs)
qed

text \<open>
  C9. On every table the dashboard's own \<open>get_summary\<close> and the API's \<open>get_summary\<close>
  return the same total, anomaly count, underperformer count, cluster counts and
  top-priority list.
\<close>

theorem summary_agree:
  "total_buildings (cloud_get_summary df) = total_buildings (get_summary df)
   \<and> anomalies (cloud_get_summary df) = anomalies (get_summary df)
   \<and> underperformers (cloud_get_summary df) = underperformers (get_summary df)
   \<and> clusters (cloud_get_summary df) = clusters (get_summary df)
   \<and> top_priority (cloud_get_summary df) = top_priority (get_summary df)"
  by (simp add: cloud_get_summary_def get_summary_def)

subsection \<open>Looking up a building\<close>

lemma to_dict_building_id:
  "map_of (to_dict df b) ''building_id'' = Some (PStr (building_id b))"
  by (simp add: to_dict_def)

lemma to_dict_shap_json:
  "map_of (to_dict df b) ''shap_json'' = (if has_shap_json df then Some (shap_json b) else None)"
  by (simp add: to_dict_def)

lemma to_dict_shap_values: "map_of (to_dict df b) ''shap_values'' = None"
  by (simp add: to_dict_def)

lemma get_building_selected:
  assumes "filter (\<lambda>x. building_id x = bid) (rows df) = b # rest"
  shows "get_building loads df bid =
           Inr (if has_shap_json df \<and> truthy (shap_json b)
                then AList.update ''shap_values''
                       (case json_loads loads (shap_json b) of Some v \<Rightarrow> v | None \<Rightarrow> PDict [])
                       (to_dict df b)
                else to_dict df b)"
  using assms
  by (simp add: get_building_def Let_def to_dict_shap_json split: option.split)

lemma cloud_get_building_selected:
  assumes "filter (\<lambda>x. building_id x = bid) (rows df) = b # rest"
  shows "cloud_get_building loads df bid =
           Some (AList.update ''shap_values''
                  (if has_shap_json df \<and> truthy (shap_json b) \<and> notna (shap_json b)
                   then (case json_loads loads (shap_json b) of Some v \<Rightarrow> v | None \<Rightarrow> PDict [])
                   else PDict [])
                  (to_dict df b))"
  using assms
  by (simp add: cloud_get_building_def Let_def to_dict_shap_json split: option.split)

lemma filter_unique_id:
  "distinct (map building_id rs) \<Longrightarrow> b \<in> set rs \<Longrightarrow>
     filter (\<lambda>x. building_id x = building_id b) rs = [b]"
proof (induction rs)
  case Nil
  then show ?case by simp
next
  case (Cons a rs)
  show ?case
  proof (cases "a = b")
    case True
    with Cons.prems have "building_id b \<notin> building_id ` set rs"
      by simp
    then have "\<forall>x\<in>set rs. building_id x \<noteq> building_id b"
      by (metis imageI)
    then have "filter (\<lambda>x. building_id x = building_id b) rs = []"
      by (simp add: filter_empty_conv)
    with True show ?thesis by simp
  next
    case False
    with Cons.prems have "b \<in> set rs" "building_id a \<noteq> building_id b"
      by auto
    with Cons show ?thesis by simp
  qed
qed

lemma filter_present:
  assumes "bid \<in> set (map building_id rs)"
  obtains b rest where "filter (\<lambda>x. building_id x = bid) rs = b # rest" "building_id b = bid"
proof -
  from assms have "filter (\<lambda>x. building_id x = bid) rs \<noteq> []"
    by (auto simp: filter_empty_conv)
  then obtain b rest where eq: "filter (\<lambda>x. building_id x = bid) rs = b # rest"
    by (cases "filter (\<lambda>x. building_id x = bid) rs") auto
  then have "b \<in> set (filter (\<lambda>x. building_id x = bid) rs)" by simp
  then have "building_id b = bid" by simp
  with eq show ?thesis by (rule that)
qed

text \<open>
  C5. For an identifier that occurs in the \<open>building_id\<close> column, \<open>get_building\<close> returns
  a record (it does not raise), and the record's \<open>building_id\<close> is the queried identifier.
\<close>

theorem get_building_found:
  assumes "bid \<in> set (map building_id (rows df))"
  shows "\<exists>r. get_building loads df bid = Inr r \<and> map_of r ''building_id'' = Some (PStr bid)"
proof -
  from assms obtain b rest
    where sel: "filter (\<lambda>x. building_id x = bid) (rows df) = b # rest" and id: "building_id b = bid"
    by (rule filter_present)
  show ?thesis
    by (simp add: get_building_selected [OF sel] update_conv' to_dict_building_id id)
qed

theorem get_building_found_witness:
  "''B2'' \<in> set (map building_id (rows example_table))
   \<and> (\<exists>r. get_building loads_flat example_table ''B2'' = Inr r
          \<and> map_of r ''building_id'' = Some (PStr ''B2''))"
proof -
  have h: "''B2'' \<in> set (map building_id (rows example_table))"
    by (simp add: example_defs)
  from h get_building_found [OF h, of loads_flat] show ?thesis by simp
qed

text \<open>
  C6. For an identifier that is not in the table \<open>get_building\<close> raises the 404
  HTTPException, and for a cluster id that no row has \<open>get_cluster\<close> raises the 404
  HTTPException; the result of the request is that error value, and the table after the
  request is the table before it.
\<close>

theorem not_found:
  "(bid \<notin> set (map building_id (rows df)) \<longrightarrow>
      request_get_building loads bid df = (Inl (HTTPException 404 ''Building not found''), df))
   \<and> (cid \<notin> set (map cluster (rows df)) \<longrightarrow>
      request_get_cluster cid df = (Inl (HTTPException 404 ''Cluster not found''), df))"
proof -
  have "filter (\<lambda>x. building_id x = bid) (rows df) = []"
    if "bid \<notin> set (map building_id (rows df))"
    using that by (auto simp: filter_empty_conv)
  moreover have "filter (\<lambda>x. cluster x = cid) (rows df) = []"
    if "cid \<notin> set (map cluster (rows df))"
    using that by (auto simp: filter_empty_conv)
  ultimately show ?thesis
    by (simp add: request_get_building_def request_get_cluster_def get_building_def
        get_cluster_def)
qed

theorem not_found_witness:
  "''B9'' \<notin> set (map building_id (rows example_table))
   \<and> 7 \<notin> set (map cluster (rows example_table))
   \<and> request_get_building loads_flat ''B9'' example_table =
       (Inl (HTTPException 404 ''Building not found''), example_table)
   \<and> request_get_cluster 7 example_table =
       (Inl (HTTPException 404 ''Cluster not found''), example_table)"
proof -
  have b: "''B9'' \<notin> set (map building_id (rows example_table))"
    by (simp add: example_defs)
  have c: "7 \<notin> set (map cluster (rows example_table))"
    by (simp add: example_defs)
  from not_found [of "''B9''" example_table loads_flat 7] b c show ?thesis by simp
qed

subsection \<open>The SHAP payload of a building\<close>

lemma example_distinct: "distinct (map building_id (rows example_table))"
  by (simp add: example_defs)

lemma example_mem:
  "row_B3 \<in> set (rows example_table)"
  "row_B1 \<in> set (rows example_table)"
  "row_B2 \<in> set (rows example_table)"
  "row_B4 \<in> set (rows example_table)"
  by (simp_all add: example_table_def example_rows_def)

text \<open>
  C10. For a row of the table (identifiers being unique) whose table has no \<open>shap_json\<close>
  column, or whose \<open>shap_json\<close> is None or the empty string, the API's \<open>get_building\<close>
  returns the row's dictionary as it is, and that dictionary has no \<open>shap_values\<close> key.
  Whenever the returned record has a \<open>shap_values\<close> key, the table has the column and the
  row's \<open>shap_json\<close> is true in Python's sense (so neither None nor empty).
\<close>

theorem shap_values_absent:
  assumes "b \<in> set (rows df)" and "distinct (map building_id (rows df))"
  shows "(\<not> has_shap_json df \<or> shap_json b = PNone \<or> shap_json b = PStr [] \<longrightarrow>
            get_building loads df (building_id b) = Inr (to_dict df b))
         \<and> map_of (to_dict df b) ''shap_values'' = None
         \<and> (\<forall>r. get_building loads df (building_id b) = Inr r \<longrightarrow>
                map_of r ''shap_values'' \<noteq> None \<longrightarrow>
                has_shap_json df \<and> truthy (shap_json b))"
proof -
  from assms have sel: "filter (\<lambda>x. building_id x = building_id b) (rows df) = [b]"
    by (simp add: filter_unique_id)
  have "get_building loads df (building_id b) = Inr (to_dict df b)"
    if "\<not> has_shap_json df \<or> shap_json b = PNone \<or> shap_json b = PStr []"
    using that by (auto simp: get_building_selected [OF sel])
  moreover have "has_shap_json df \<and> truthy (shap_json b)"
    if "get_building loads df (building_id b) = Inr r" "map_of r ''shap_values'' \<noteq> None" for r
    using that by (auto simp: get_building_selected [OF sel] to_dict_shap_values split: if_splits)
  ultimately show ?thesis
    by (simp add: to_dict_shap_values)
qed

theorem shap_values_absent_witness:
  "row_B2 \<in> set (rows example_table)
   \<and> row_B3 \<in> set (rows example_table)
   \<and> distinct (map building_id (rows example_table))
   \<and> shap_json (row_B2) = PNone
   \<and> get_building loads_flat example_table ''B2'' = Inr (to_dict example_table (row_B2))
   \<and> map_of (to_dict example_table (row_B2)) ''shap_values'' = None
   \<and> (\<exists>r. get_building loads_flat example_table ''B3'' = Inr r
          \<and> map_of r ''shap_values'' \<noteq> None)
   \<and> has_shap_json example_table \<and> truthy (shap_json (row_B3))"
proof -
  have n: "shap_json (row_B2) = PNone"
    by (simp add: example_defs)
  have id2: "building_id (row_B2) = ''B2''"
    by (simp add: example_defs)
  have id0: "building_id (row_B3) = ''B3''"
    by (simp add: example_defs)
  have sel: "filter (\<lambda>x. building_id x = ''B3'') (rows example_table) = [row_B3]"
    using filter_unique_id [OF example_distinct example_mem(1)] by (simp add: id0)
  have t: "has_shap_json example_table \<and> truthy (shap_json (row_B3))"
    by (simp add: example_defs example_shap_text_def)
  have r: "\<exists>r. get_building loads_flat example_table ''B3'' = Inr r
          \<and> map_of r ''shap_values'' \<noteq> None"
    using t by (simp add: get_building_selected [OF sel] update_conv')
  from shap_values_absent [OF example_mem(3) example_distinct, of loads_flat]
    shap_values_absent [OF example_mem(1) example_distinct, of loads_flat]
    n id2 id0 r t example_mem example_distinct
  show ?thesis by simp
qed

text \<open>
  C7. For a row of the table (identifiers being unique) whose \<open>shap_json\<close> is a non-empty
  text that the JSON decoder rejects, \<open>get_building\<close> returns the row's dictionary with
  \<open>shap_values\<close> set to the empty dictionary; it does not raise. The dashboard's own
  \<open>get_building\<close> returns the same record.
\<close>

theorem malformed_shap_recovered:
  assumes "b \<in> set (rows df)" and "distinct (map building_id (rows df))"
    and "has_shap_json df" and "shap_json b = PStr s" and "s \<noteq> []" and "loads s = None"
  shows "get_building loads df (building_id b) =
           Inr (AList.update ''shap_values'' (PDict []) (to_dict df b))
         \<and> cloud_get_building loads df (building_id b) =
           Some (AList.update ''shap_values'' (PDict []) (to_dict df b))
         \<and> map_of (AList.update ''shap_values'' (PDict []) (to_dict df b)) ''shap_values'' =
           Some (PDict [])"
proof -
  from assms have sel: "filter (\<lambda>x. building_id x = building_id b) (rows df) = [b]"
    by (simp add: filter_unique_id)
  from assms(3-6) show ?thesis
    by (simp add: get_building_selected [OF sel] cloud_get_building_selected [OF sel]
        update_conv')
qed

theorem malformed_shap_recovered_witness:
  "row_B1 \<in> set (rows example_table)
   \<and> distinct (map building_id (rows example_table))
   \<and> has_shap_json example_table
   \<and> shap_json (row_B1) = PStr ''{not json''
   \<and> ''{not json'' \<noteq> []
   \<and> loads_flat ''{not json'' = None
   \<and> (\<exists>r. get_building loads_flat example_table ''B1'' = Inr r
          \<and> map_of r ''shap_values'' = Some (PDict []))
   \<and> (\<exists>r. cloud_get_building loads_flat example_table ''B1'' = Some r
          \<and> map_of r ''shap_values'' = Some (PDict []))"
proof -
  have c: "has_shap_json example_table"
    by (simp add: example_table_def)
  have j: "shap_json (row_B1) = PStr ''{not json''"
    by (simp add: example_defs)
  have e: "''{not json'' \<noteq> []"
    by simp
  have l: "loads_flat ''{not json'' = None"
    by (simp add: loads_flat_def skip_ws_def is_ws_def)
  have i: "building_id (row_B1) = ''B1''"
    by (simp add: example_defs)
  from malformed_shap_recovered [where loads = loads_flat and s = "''{not json''",
      OF example_mem(2) example_distinct c j e l]
    example_mem(2) example_distinct c j l i
  show ?thesis by simp
qed




subsection \<open>Clusters\<close>



subsection \<open>The top-priority list\<close>

text \<open>
  C2. The \<open>top_priority\<close> list of \<open>get_summary\<close> is in ascending order of
  \<open>priority_rank\<close>, its length is the smaller of 10 and the number of rows, and each entry
  consists of the \<open>building_id\<close>, \<open>building_type\<close>, \<open>recommendation\<close> and
  \<open>priority_rank\<close> of a row of the table.
\<close>

theorem top_priority_sorted:
  "sorted (map tp_priority_rank (top_priority (get_summary df)))
   \<and> length (top_priority (get_summary df)) = min 10 (length (rows df))
   \<and> (\<forall>e\<in>set (top_priority (get_summary df)). \<exists>b\<in>set (rows df).
         e = \<lparr> tp_building_id = building_id b, tp_building_type = building_type b,
               tp_recommendation = recommendation b, tp_priority_rank = priority_rank b \<rparr>)"
proof -
  have ranks: "map tp_priority_rank (top_priority (get_summary df)) =
      take 10 (map priority_rank (sort_key priority_rank (rows df)))"
    by (simp add: get_summary_def nsmallest_def select_priority_columns_def comp_def take_map)
  have "sorted (map priority_rank (sort_key priority_rank (rows df)))"
    by (rule sorted_sort_key)
  then have s: "sorted (map tp_priority_rank (top_priority (get_summary df)))"
    unfolding ranks by (rule sorted_wrt_take)
  have l: "length (top_priority (get_summary df)) = min 10 (length (rows df))"
    by (simp add: get_summary_def nsmallest_def min.commute)
  have "set (nsmallest 10 priority_rank (rows df)) \<subseteq> set (rows df)"
    unfolding nsmallest_def using set_take_subset [of 10 "sort_key priority_rank (rows df)"]
    by simp
  then have p: "\<forall>e\<in>set (top_priority (get_summary df)). \<exists>b\<in>set (rows df).
         e = \<lparr> tp_building_id = building_id b, tp_building_type = building_type b,
               tp_recommendation = recommendation b, tp_priority_rank = priority_rank b \<rparr>"
    by (auto simp: get_summary_def select_priority_columns_def)
  from s l p show ?thesis by blast
qed

theorem top_priority_sorted_witness:
  "map tp_priority_rank (top_priority (get_summary example_table)) = [1, 2, 3, 4]
   \<and> map tp_building_id (top_priority (get_summary example_table)) = [''B1'', ''B2'', ''B3'', ''B4'']
   \<and> sorted (map tp_priority_rank (top_priority (get_summary example_table)))
   \<and> length (top_priority (get_summary example_table)) = min 10 (length (rows example_table))
   \<and> hd (top_priority (get_summary example_table)) \<in> set (top_priority (get_summary example_table))
   \<and> (\<exists>b. b \<in> set (rows example_table)
          \<and> hd (top_priority (get_summary example_table)) =
              \<lparr> tp_building_id = building_id b, tp_building_type = building_type b,
                tp_recommendation = recommendation b, tp_priority_rank = priority_rank b \<rparr>)"
proof -
  have r: "map tp_priority_rank (top_priority (get_summary example_table)) = [1, 2, 3, 4]"
    by (simp add: get_summary_def nsmallest_def select_priority_columns_def example_defs)
  have i: "map tp_building_id (top_priority (get_summary example_table)) =
      [''B1'', ''B2'', ''B3'', ''B4'']"
    by (simp add: get_summary_def nsmallest_def select_priority_columns_def example_defs)
  from r have "top_priority (get_summary example_table) \<noteq> []"
    by auto
  then have m: "hd (top_priority (get_summary example_table))
      \<in> set (top_priority (get_summary example_table))"
    by (rule hd_in_set)
  from top_priority_sorted [of example_table] r i m show ?thesis
    by blast
qed

subsection \<open>Cluster descriptions\<close>

text \<open>
  The loop returns the description of the position at which the wanted id stands in the
  sorted list.
\<close>

lemma description_loop_index:
  "distinct (map fst xs) \<Longrightarrow> j < length xs \<Longrightarrow>
     description_loop n i (fst (xs ! j)) xs =
       (if i + j = 0 then high_baseload
        else if int (i + j) = int n - 1 then efficient
        else standard)"
proof (induction xs arbitrary: i j)
  case Nil
  then show ?case by simp
next
  case (Cons x xs)
  obtain cid stats where x: "x = (cid, stats)" by (cases x)
  show ?case
  proof (cases j)
    case 0
    then show ?thesis by (simp add: x)
  next
    case (Suc k)
    with Cons.prems have k: "k < length xs" and d: "distinct (map fst xs)"
      by simp_all
    from Cons.prems k have "fst (xs ! k) \<noteq> cid"
      by (auto simp: x)
    with Cons.IH [OF d k, of "Suc i"] Suc show ?thesis
      by (simp add: x)
  qed
qed

lemma description_loop_absent:
  "cid \<notin> fst ` set xs \<Longrightarrow> description_loop n i cid xs = standard"
  by (induction xs arbitrary: i) auto

text \<open>
  C1. \<open>cluster_stats\<close> is a dictionary, so its keys are distinct. With at least two
  clusters there are two different clusters \<open>h\<close> and \<open>e\<close>, \<open>h\<close> of the greatest
  and \<open>e\<close> of the least mean baseload among all clusters, such that
  \<open>get_cluster_description\<close> gives \<open>high_baseload\<close> for \<open>h\<close>, \<open>efficient\<close> for \<open>e\<close>
  and \<open>standard\<close> for every other cluster. With exactly one cluster, that cluster gets
  \<open>high_baseload\<close>.
\<close>

theorem cluster_labels:
  assumes "distinct (map fst cluster_stats)"
  shows "(2 \<le> length cluster_stats \<longrightarrow>
            (\<exists>h hs e es. (h, hs) \<in> set cluster_stats \<and> (e, es) \<in> set cluster_stats \<and> h \<noteq> e
               \<and> (\<forall>(c, s)\<in>set cluster_stats.
                     avg_baseload s \<le> avg_baseload hs \<and> avg_baseload es \<le> avg_baseload s
                     \<and> get_cluster_description c cluster_stats =
                         (if c = h then high_baseload
                          else if c = e then efficient
                          else standard))))
         \<and> (\<forall>c s. cluster_stats = [(c, s)] \<longrightarrow>
               get_cluster_description c cluster_stats = high_baseload)"
proof (intro conjI impI allI)
  fix c s
  assume "cluster_stats = [(c, s)]"
  then show "get_cluster_description c cluster_stats = high_baseload"
    by (simp add: get_cluster_description_def sorted_reverse_def)
next
  assume two: "2 \<le> length cluster_stats"
  define S where "S = sorted_reverse (\<lambda>x. avg_baseload (snd x)) cluster_stats"
  have len: "length S = length cluster_stats"
    by (simp add: S_def sorted_reverse_def)
  have setS: "set S = set cluster_stats"
    by (simp add: S_def sorted_reverse_def)
  have "mset (map fst S) = mset (map fst cluster_stats)"
    by (simp add: S_def sorted_reverse_def)
  with assms have dist: "distinct (map fst S)"
    by (metis mset_eq_imp_distinct_iff)
  have srt: "sorted (map (\<lambda>x. - avg_baseload (snd x)) S)"
    unfolding S_def sorted_reverse_def by (rule sorted_sort_key)
  have desc: "avg_baseload (snd (S ! j)) \<le> avg_baseload (snd (S ! i))"
    if "i \<le> j" "j < length S" for i j
  proof -
    from srt that have "map (\<lambda>x. - avg_baseload (snd x)) S ! i
        \<le> map (\<lambda>x. - avg_baseload (snd x)) S ! j"
      by (simp add: sorted_iff_nth_mono del: nth_map)
    with that show ?thesis by simp
  qed
  have label: "get_cluster_description (fst (S ! j)) cluster_stats =
      (if j = 0 then high_baseload
       else if j = length S - 1 then efficient
       else standard)" if "j < length S" for j
  proof -
    from that have "int j = int (length S) - 1 \<longleftrightarrow> j = length S - 1"
      by auto
    with description_loop_index [OF dist that, of "length S" 0] show ?thesis
      by (simp add: get_cluster_description_def S_def)
  qed
  have key_inj: "fst (S ! i) = fst (S ! j) \<longleftrightarrow> i = j" if "i < length S" "j < length S" for i j
    using dist that nth_eq_iff_index_eq [of "map fst S" i j] by simp
  from two len have n: "0 < length S" "length S - 1 < length S" "0 \<noteq> length S - 1"
    by linarith+
  obtain h hs where h: "S ! 0 = (h, hs)"
    by (cases "S ! 0")
  obtain e es where e: "S ! (length S - 1) = (e, es)"
    by (cases "S ! (length S - 1)")
  from n h e setS have mem: "(h, hs) \<in> set cluster_stats" "(e, es) \<in> set cluster_stats"
    by (metis nth_mem)+
  from key_inj [OF n(1) n(2)] n(3) h e have ne: "h \<noteq> e"
    by simp
  have all: "avg_baseload s \<le> avg_baseload hs \<and> avg_baseload es \<le> avg_baseload s
      \<and> get_cluster_description c cluster_stats =
          (if c = h then high_baseload else if c = e then efficient else standard)"
    if "(c, s) \<in> set cluster_stats" for c s
  proof -
    from that setS obtain j where j: "j < length S" "S ! j = (c, s)"
      by (metis in_set_conv_nth)
    from desc [of 0 j] j h have top: "avg_baseload s \<le> avg_baseload hs"
      by simp
    from desc [of j "length S - 1"] j e have bottom: "avg_baseload es \<le> avg_baseload s"
      by simp
    from key_inj [OF j(1) n(1)] j h have ch: "c = h \<longleftrightarrow> j = 0"
      by simp
    from key_inj [OF j(1) n(2)] j e have ce: "c = e \<longleftrightarrow> j = length S - 1"
      by simp
    from label [OF j(1)] j have "get_cluster_description c cluster_stats =
        (if c = h then high_baseload else if c = e then efficient else standard)"
      by (simp add: ch ce)
    with top bottom show ?thesis by simp
  qed
  from mem ne all
  show "\<exists>h hs e es. (h, hs) \<in> set cluster_stats \<and> (e, es) \<in> set cluster_stats \<and> h \<noteq> e
               \<and> (\<forall>(c, s)\<in>set cluster_stats.
                     avg_baseload s \<le> avg_baseload hs \<and> avg_baseload es \<le> avg_baseload s
                     \<and> get_cluster_description c cluster_stats =
                         (if c = h then high_baseload
                          else if c = e then efficient
                          else standard))"
    by blast
qed


theorem cluster_labels_witness:
  "distinct (map fst example_stats) \<and> 2 \<le> length example_stats
   \<and> (\<exists>h hs e es. (h, hs) \<in> set example_stats \<and> (e, es) \<in> set example_stats \<and> h \<noteq> e
          \<and> (\<forall>(c, s)\<in>set example_stats.
                avg_baseload s \<le> avg_baseload hs \<and> avg_baseload es \<le> avg_baseload s
                \<and> get_cluster_description c example_stats =
                    (if c = h then high_baseload else if c = e then efficient else standard)))
   \<and> map (\<lambda>c. get_cluster_description c example_stats) [0, 1, 2] =
       [high_baseload, standard, efficient]
   \<and> get_cluster_description 1 (take 1 example_stats) = high_baseload"
proof -
  have d: "distinct (map fst example_stats)"
    by (simp add: example_stats_def)
  have l: "2 \<le> length example_stats"
    by (simp add: example_stats_def)
  have v: "map (\<lambda>c. get_cluster_description c example_stats) [0, 1, 2] =
       [high_baseload, standard, efficient]"
    by (simp add: example_stats_def get_cluster_description_def sorted_reverse_def)
  have d1: "distinct (map fst (take 1 example_stats))"
    by (simp add: example_stats_def)
  have "take 1 example_stats = [(1, snd (hd example_stats))]"
    by (simp add: example_stats_def)
  with cluster_labels [OF d1] have o: "get_cluster_description 1 (take 1 example_stats) = high_baseload"
    by simp
  from cluster_labels [OF d] l v o d show ?thesis
    by blast
qed

end
